theory Spec2Isabelle
  imports Main
begin

section \<open>Data model\<close>

text \<open>
  A page is an ordered sequence of text fragments (PDF) or of raw lines (CSV).
\<close>

type_synonym page = "string list"

text \<open>
  The terminal artifact resolved by the default export:
  \<^verbatim>\<open>{ file, activities, status, successful }\<close>.
  The type parameter is the JavaScript value stored under \<^verbatim>\<open>activities\<close>.
  The field names carry the suffix \<open>_out\<close>: \<open>file\<close> is reserved, and
  \<open>activities\<close> and \<open>status\<close> are also the fields of a parse result.
\<close>

record 'v outcome =
  file_out :: string
  activities_out :: 'v
  status_out :: int
  successful_out :: bool

text \<open>
  What an implementation's \<^verbatim>\<open>parsePages\<close> returns:
  \<^verbatim>\<open>{ activities, status }\<close>. A field that is \<^verbatim>\<open>undefined\<close> is \<open>None\<close>;
  an element of the activities array that is \<^verbatim>\<open>undefined\<close> is \<open>None\<close> as well.
  The activity itself is opaque (type parameter \<open>'a\<close>).
\<close>

record 'a parse_result =
  activities :: "'a option list option"
  status :: "int option"

section \<open>The result filter\<close>

text \<open>
  \<^verbatim>\<open>
  const filterResultActivities = result => {
    if (result.activities !== undefined) {
      if (result.activities.filter(activity => activity === undefined).length > 0) {
        result.activities = undefined;
        result.status = 6;
        return result;
      }
      const numberOfActivities = result.activities.length;
      result.activities = numberOfActivities === 0 ? undefined : result.activities;
      result.status = numberOfActivities === 0 && result.status === 0 ? 5 : result.status;
    }
    return result;
  };
  \<close>
  The object is mutated in place and returned; the model returns the updated record.
\<close>

definition filterResultActivities :: "'a parse_result \<Rightarrow> 'a parse_result" where
  "filterResultActivities result =
     (case activities result of
        None \<Rightarrow> result
      | Some acts \<Rightarrow>
          if length (filter (\<lambda>activity. activity = None) acts) > 0
          then result\<lparr>activities := None, status := Some 6\<rparr>
          else
            (let numberOfActivities = length acts
             in result\<lparr>activities := (if numberOfActivities = 0 then None else Some acts),
                       status := (if numberOfActivities = 0 \<and> status result = Some 0
                                  then Some 5 else status result)\<rparr>))"

section \<open>The error taxonomy\<close>

text \<open>
  \<^verbatim>\<open>ParqetError\<close> and its three subclasses; each subclass instance carries its message
  and \<^verbatim>\<open>data.status\<close>. \<open>OtherError\<close> stands for every thrown value that is not an
  instance of \<^verbatim>\<open>ParqetError\<close> (a \<^verbatim>\<open>TypeError\<close>, a \<^verbatim>\<open>SyntaxError\<close> of
  \<^verbatim>\<open>JSON.parse\<close>, ...).
\<close>

datatype exn =
    ParqetDocumentError string int
  | ParqetParserError string int
  | ParqetActivityValidationError string int
  | OtherError string

text \<open>
  \<^verbatim>\<open>constructor(message, fileName, status) {
    super(`${message}\nFile: ${fileName}`); this.data = { status }; }\<close>
\<close>

definition new_ParqetDocumentError :: "string \<Rightarrow> string \<Rightarrow> int \<Rightarrow> exn" where
  "new_ParqetDocumentError message fileName code =
     ParqetDocumentError (message @ [char_of (10::nat)] @ ''File: '' @ fileName) code"

text \<open>
  \<^verbatim>\<open>error instanceof ParqetError\<close> followed by \<^verbatim>\<open>error.data.status\<close>: the status of
  an error of a recognised kind, \<open>None\<close> for any other thrown value.
\<close>

definition data_status :: "exn \<Rightarrow> int option" where
  "data_status error =
     (case error of
        ParqetDocumentError _ code \<Rightarrow> Some code
      | ParqetParserError _ code \<Rightarrow> Some code
      | ParqetActivityValidationError _ code \<Rightarrow> Some code
      | OtherError _ \<Rightarrow> None)"

section \<open>Implementations and their registry\<close>

text \<open>
  \<^verbatim>\<open>parsePages\<close> receives the pages themselves for a PDF and the parsed JSON rows
  for a CSV; \<open>'j\<close> is the type of the value \<^verbatim>\<open>JSON.parse\<close> returns.
\<close>

datatype 'j parse_input = PdfPages "page list" | CsvRows 'j

text \<open>
  An implementation is the pair of capabilities the pipeline calls:
  \<^verbatim>\<open>canParseDocument(pages, extension)\<close>, a predicate, and \<^verbatim>\<open>parsePages\<close>, which
  returns a parse result or throws. The brokers and apps themselves are not part of the
  pipeline: the registry \<^verbatim>\<open>allImplementations\<close> is a parameter of every function below.
\<close>

record ('a, 'j) implementation =
  canParseDocument :: "page list \<Rightarrow> string \<Rightarrow> bool"
  parsePages :: "'j parse_input \<Rightarrow> exn + 'a parse_result"

definition acceptedFileTypes :: "string list" where
  "acceptedFileTypes = [''pdf'', ''csv'']"

section \<open>String helpers of the JavaScript runtime\<close>

text \<open>
  \<^verbatim>\<open>String.prototype.toLowerCase\<close> on strings of code units below 256: the ASCII
  capitals and the capitals of the Latin-1 block (all of \<open>0xC0..0xDE\<close> but the
  multiplication sign \<open>0xD7\<close>) move up by 32, every other code unit stays.
\<close>

definition toLowerCase :: "string \<Rightarrow> string" where
  "toLowerCase s =
     map (\<lambda>c. let n = (of_char c :: nat)
              in if (65 \<le> n \<and> n \<le> 90) \<or> (192 \<le> n \<and> n \<le> 222 \<and> n \<noteq> 215)
                 then char_of (n + 32) else c) s"

text \<open>\<^verbatim>\<open>Array.prototype.join\<close> on an array of strings.\<close>

fun join :: "string list \<Rightarrow> string \<Rightarrow> string" where
  "join [] sep = []"
| "join [x] sep = x"
| "join (x # y # ys) sep = x @ sep @ join (y # ys) sep"

section \<open>The implementation selector\<close>

text \<open>
  \<^verbatim>\<open>
  export function findImplementation(pages, fileName, extension) {
    if (!acceptedFileTypes.includes(extension.toLowerCase()))
      throw new ParqetDocumentError(`Invalid document. Unsupported file type
        '${extension}'. Extension must be one of [${acceptedFileTypes.join(',')}].`,
        fileName, 4);
    const implementations = allImplementations.filter(impl =>
      impl.canParseDocument(pages, extension));
    if (implementations === undefined || !implementations.length)
      throw new ParqetDocumentError(`Invalid document. Failed to find parser
        implementation for document.`, fileName, 1);
    if (implementations.length > 1)
      throw new ParqetDocumentError(`Invalid document. Found multiple parser
        implementations for document.`, fileName, 2);
    return implementations[0];
  }
  \<close>
  A throw is \<open>Inl\<close>, a return is \<open>Inr\<close>. \<^verbatim>\<open>Array.prototype.filter\<close> never returns
  \<^verbatim>\<open>undefined\<close>, so the first disjunct of the second test never holds.
  In the source file the declaration is preceded by the stray opening line of an older,
  two-argument arrow function of the same name; the three-argument declaration above is
  the one the dispatcher and the test helper call, and the one modelled here.
\<close>

definition unsupported_message :: "string \<Rightarrow> string" where
  "unsupported_message extension =
     ''Invalid document. Unsupported file type '' @ [char_of (39::nat)] @ extension
       @ [char_of (39::nat)] @ ''. Extension must be one of [''
       @ join acceptedFileTypes '','' @ ''].''"

definition findImplementation ::
  "('a, 'j) implementation list \<Rightarrow> page list \<Rightarrow> string \<Rightarrow> string
     \<Rightarrow> exn + ('a, 'j) implementation" where
  "findImplementation allImplementations pages fileName extension =
     (if toLowerCase extension \<notin> set acceptedFileTypes
      then Inl (new_ParqetDocumentError (unsupported_message extension) fileName 4)
      else
        (let implementations =
               filter (\<lambda>impl. canParseDocument impl pages extension) allImplementations
         in if length implementations = 0
            then Inl (new_ParqetDocumentError
                   ''Invalid document. Failed to find parser implementation for document.''
                   fileName 1)
            else if length implementations > 1
            then Inl (new_ParqetDocumentError
                   ''Invalid document. Found multiple parser implementations for document.''
                   fileName 2)
            else Inr (implementations ! 0)))"

section \<open>The parse dispatcher\<close>

text \<open>
  The value \<^verbatim>\<open>parseActivitiesFromPages\<close> returns is the local \<^verbatim>\<open>activities\<close>: either
  the array it was initialised with, or the object \<^verbatim>\<open>filterResultActivities\<close> returned.
\<close>

datatype 'a dispatched = ActivityArray "'a option list" | FilteredResult "'a parse_result"

text \<open>
  \<^verbatim>\<open>
  export function parseActivitiesFromPages(pages, fileName, extension) {
    if (!pages.length)
      throw new ParqetDocumentError(`Invalid document. Document is empty.`, fileName, 1);
    const impl = findImplementation(pages, fileName, extension);
    let activities = [];
    if (extension === 'pdf') {
      activities = filterResultActivities(impl.parsePages(pages));
    } else if (extension === 'csv') {
      activities = filterResultActivities(
        impl.parsePages(JSON.parse(csvLinesToJSON(pages[0]))));
    }
    return activities;
  }
  \<close>
  \<^verbatim>\<open>csvLinesToJSON\<close> (imported from the helper module) and \<^verbatim>\<open>JSON.parse\<close> are
  parameters; each returns its value or throws.
\<close>

definition parseActivitiesFromPages ::
  "('a, 'j) implementation list \<Rightarrow> (page \<Rightarrow> exn + string) \<Rightarrow> (string \<Rightarrow> exn + 'j)
     \<Rightarrow> page list \<Rightarrow> string \<Rightarrow> string \<Rightarrow> exn + 'a dispatched" where
  "parseActivitiesFromPages allImplementations csvLinesToJSON JSON_parse pages fileName extension =
     (case pages of
        [] \<Rightarrow> Inl (new_ParqetDocumentError ''Invalid document. Document is empty.'' fileName 1)
      | page0 # _ \<Rightarrow>
          (case findImplementation allImplementations pages fileName extension of
             Inl error \<Rightarrow> Inl error
           | Inr impl \<Rightarrow>
               if extension = ''pdf'' then
                 (case parsePages impl (PdfPages pages) of
                    Inl error \<Rightarrow> Inl error
                  | Inr result \<Rightarrow> Inr (FilteredResult (filterResultActivities result)))
               else if extension = ''csv'' then
                 (case csvLinesToJSON page0 of
                    Inl error \<Rightarrow> Inl error
                  | Inr json \<Rightarrow>
                      (case JSON_parse json of
                         Inl error \<Rightarrow> Inl error
                       | Inr rows \<Rightarrow>
                           (case parsePages impl (CsvRows rows) of
                              Inl error \<Rightarrow> Inl error
                            | Inr result \<Rightarrow>
                                Inr (FilteredResult (filterResultActivities result)))))
               else Inr (ActivityArray [])))"

section \<open>Promises\<close>

text \<open>
  The state a promise ends in. A promise that is never settled stays \<open>Pending\<close>.
\<close>

datatype 'a promise = Pending | Resolved 'a | Rejected exn

text \<open>
  Calling the \<^verbatim>\<open>resolve\<close> function of a promise: the first call settles it, any later
  call is ignored.
\<close>

definition resolve :: "'a \<Rightarrow> 'a promise \<Rightarrow> 'a promise" where
  "resolve v p = (case p of Pending \<Rightarrow> Resolved v | Resolved w \<Rightarrow> Resolved w
                   | Rejected error \<Rightarrow> Rejected error)"

text \<open>
  \<^verbatim>\<open>p.then(onFulfilled)\<close>, seen from a state \<open>s\<close> that the callback may change (here:
  the promise the callback resolves). The call itself only registers the callback and
  returns a new promise; it never throws. The callback runs later, and only when \<open>p\<close>
  is fulfilled. What the callback throws rejects the promise that \<^verbatim>\<open>then\<close> returned,
  which nothing here observes, and leaves \<open>s\<close> as it was.
\<close>

definition then_do :: "'a promise \<Rightarrow> ('a \<Rightarrow> 's \<Rightarrow> exn + 's) \<Rightarrow> 's \<Rightarrow> 's" where
  "then_do p onFulfilled s =
     (case p of
        Pending \<Rightarrow> s
      | Rejected error \<Rightarrow> s
      | Resolved v \<Rightarrow> (case onFulfilled v s of Inl error \<Rightarrow> s | Inr s' \<Rightarrow> s'))"

text \<open>
  \<^verbatim>\<open>try { body } catch (error) { handler }\<close>: the handler sees what the body throws
  while it runs, that is, synchronously.
\<close>

definition try_catch :: "exn + 's \<Rightarrow> (exn \<Rightarrow> 's) \<Rightarrow> 's" where
  "try_catch body handler = (case body of Inl error \<Rightarrow> handler error | Inr s \<Rightarrow> s)"

section \<open>Page extraction\<close>

record parsed_file =
  pages_of :: "page list"
  extension_of :: string

text \<open>\<^verbatim>\<open>String.prototype.split\<close> with a one-character separator.\<close>

fun split :: "string \<Rightarrow> char \<Rightarrow> string list" where
  "split [] sep = [[]]"
| "split (c # cs) sep =
     (if c = sep then [] # split cs sep
      else (case split cs sep of [] \<Rightarrow> [[c]] | w # ws \<Rightarrow> (c # w) # ws))"

text \<open>
  What the \<^verbatim>\<open>FileReader\<close> and pdfjs, both outside the pipeline, do with the file:
  the executor of \<^verbatim>\<open>parseFile\<close> throws before a reader is started; or the load event
  never fires; or the load handler throws while it extracts the pages; or it extracts them.
\<close>

datatype extraction =
    ExecutorThrows exn
  | NoLoadEvent
  | HandlerThrows
  | Extracted "page list"

text \<open>
  \<^verbatim>\<open>
  export const parseFile = file => {
    return new Promise(resolve => {
      const extension = file.name.split('.').pop().toLowerCase();
      const reader = new FileReader();
      reader.onload = async e => {
        if (!isBrowser || isNode) { resolve({ pages: [], extension }); }
        let pages = [];
        ... (the pages are extracted with pdfjs, or split from the text) ...
        resolve({ pages, extension });
      };
      if (extension === 'pdf') { reader.readAsArrayBuffer(file); }
      else { reader.readAsText(file); }
    });
  };
  \<close>
  An exception in the executor rejects the promise. Outside a browser the handler's
  first \<^verbatim>\<open>resolve\<close> settles the promise with no pages, whatever happens afterwards.
\<close>

definition parseFile :: "bool \<Rightarrow> bool \<Rightarrow> string \<Rightarrow> extraction \<Rightarrow> parsed_file promise" where
  "parseFile isBrowser isNode name reader =
     (let extension = toLowerCase (last (split name (CHR ''.'')))
      in case reader of
           ExecutorThrows error \<Rightarrow> Rejected error
         | NoLoadEvent \<Rightarrow> Pending
         | HandlerThrows \<Rightarrow>
             (if isNode \<or> \<not> isBrowser
              then Resolved \<lparr>pages_of = [], extension_of = extension\<rparr>
              else Pending)
         | Extracted pages \<Rightarrow>
             (if isNode \<or> \<not> isBrowser
              then Resolved \<lparr>pages_of = [], extension_of = extension\<rparr>
              else Resolved \<lparr>pages_of = pages, extension_of = extension\<rparr>))"

section \<open>The top-level export\<close>

text \<open>
  \<^verbatim>\<open>activities.length\<close> is the length of an array and \<^verbatim>\<open>undefined\<close> on the object
  \<^verbatim>\<open>{ activities, status }\<close>, which has no such property; \<^verbatim>\<open>!!\<close> maps \<^verbatim>\<open>undefined\<close>
  and \<open>0\<close> to \<^verbatim>\<open>false\<close> and every other number to \<^verbatim>\<open>true\<close>.
\<close>

definition length_of :: "'a dispatched \<Rightarrow> nat option" where
  "length_of v = (case v of ActivityArray xs \<Rightarrow> Some (length xs) | FilteredResult r \<Rightarrow> None)"

definition truthy :: "nat option \<Rightarrow> bool" where
  "truthy v = (case v of None \<Rightarrow> False | Some n \<Rightarrow> 0 < n)"

text \<open>
  The callback given to \<^verbatim>\<open>then\<close>:
  \<^verbatim>\<open>
  parsedFile => {
    const activities = parseActivitiesFromPages(
      parsedFile.pages, file.name, parsedFile.extension);
    resolve({ file: file.name, activities, status: 0,
              successful: !!activities.length });
  }
  \<close>
  It either throws or resolves the promise \<open>outer\<close> that the export returned.
\<close>

definition on_parsed ::
  "('a, 'j) implementation list \<Rightarrow> (page \<Rightarrow> exn + string) \<Rightarrow> (string \<Rightarrow> exn + 'j)
     \<Rightarrow> string \<Rightarrow> parsed_file \<Rightarrow> 'a dispatched outcome promise
     \<Rightarrow> exn + 'a dispatched outcome promise" where
  "on_parsed allImplementations csvLinesToJSON JSON_parse name parsedFile outer =
     (case parseActivitiesFromPages allImplementations csvLinesToJSON JSON_parse
             (pages_of parsedFile) name (extension_of parsedFile) of
        Inl error \<Rightarrow> Inl error
      | Inr acts \<Rightarrow>
          Inr (resolve \<lparr>file_out = name, activities_out = acts, status_out = 0,
                        successful_out = truthy (length_of acts)\<rparr> outer))"

text \<open>
  The handler of the \<^verbatim>\<open>catch\<close> block:
  \<^verbatim>\<open>
  if (error instanceof ParqetError) {
    resolve({ file: file.name, activities: [], status: error.data.status,
              successful: false });
  }
  \<close>
  Any other error is swallowed.
\<close>

definition on_caught ::
  "string \<Rightarrow> exn \<Rightarrow> 'a dispatched outcome promise \<Rightarrow> 'a dispatched outcome promise" where
  "on_caught name error outer =
     (case data_status error of
        None \<Rightarrow> outer
      | Some code \<Rightarrow>
          resolve \<lparr>file_out = name, activities_out = ActivityArray [], status_out = code,
                   successful_out = False\<rparr> outer)"

text \<open>
  \<^verbatim>\<open>
  export default file => {
    return new Promise(resolve => {
      try {
        parseFile(file).then(parsedFile => { ... });
      } catch (error) { ... }
    });
  };
  \<close>
  The result is the state in which the returned promise ends. The executor runs first:
  the body of its \<^verbatim>\<open>try\<close> block calls \<^verbatim>\<open>parseFile\<close>, which returns a promise, and
  \<^verbatim>\<open>then\<close>, which registers the callback; neither throws, so the body completes
  normally (\<open>Inr\<close>) with the returned promise still pending. The callback runs after the
  block has been left.
\<close>

definition process ::
  "('a, 'j) implementation list \<Rightarrow> (page \<Rightarrow> exn + string) \<Rightarrow> (string \<Rightarrow> exn + 'j)
     \<Rightarrow> bool \<Rightarrow> bool \<Rightarrow> string \<Rightarrow> extraction \<Rightarrow> 'a dispatched outcome promise" where
  "process allImplementations csvLinesToJSON JSON_parse isBrowser isNode name reader =
     (let outer = try_catch (Inr Pending) (\<lambda>error. on_caught name error Pending)
      in then_do (parseFile isBrowser isNode name reader)
           (on_parsed allImplementations csvLinesToJSON JSON_parse name) outer)"

section \<open>Sample collaborators\<close>

text \<open>
  An implementation that accepts a document exactly when \<open>accepts\<close> holds and whose
  \<^verbatim>\<open>parsePages\<close> returns (or throws) \<open>parsed\<close>, whatever it is given.
\<close>

definition sample_impl ::
  "bool \<Rightarrow> exn + nat parse_result \<Rightarrow> (nat, string) implementation" where
  "sample_impl accepts parsed =
     \<lparr>canParseDocument = (\<lambda>pages extension. accepts), parsePages = (\<lambda>input. parsed)\<rparr>"

text \<open>Stand-ins for \<^verbatim>\<open>csvLinesToJSON\<close> and \<^verbatim>\<open>JSON.parse\<close> that never throw.\<close>

definition sample_csvLinesToJSON :: "page \<Rightarrow> exn + string" where
  "sample_csvLinesToJSON lines = Inr (join lines '','')"

definition sample_JSON_parse :: "string \<Rightarrow> exn + string" where
  "sample_JSON_parse json = Inr json"

section \<open>Properties of the result filter\<close>

lemma filter_undefined_empty:
  "(filter (\<lambda>activity. activity = None) acts = []) = (None \<notin> set acts)"
  by (induction acts) auto

text \<open>
  C7 (invalid-activity poisoning). Whenever the activities sequence of a parse result is
  present and holds at least one undefined element, the filtered result has its
  activities absent and status 6; every element, valid or not, is discarded.
\<close>

theorem filter_poisoning:
  assumes "activities result = Some acts" and "None \<in> set acts"
  shows "activities (filterResultActivities result) = None
         \<and> status (filterResultActivities result) = Some 6"
  using assms by (auto simp: filterResultActivities_def filter_undefined_empty)

theorem filter_poisoning_witness:
  "activities \<lparr>activities = Some [Some (1::nat), None, Some 2], status = Some 0\<rparr>
     = Some [Some 1, None, Some 2]
   \<and> None \<in> set [Some (1::nat), None, Some 2]
   \<and> activities (filterResultActivities
        \<lparr>activities = Some [Some (1::nat), None, Some 2], status = Some 0\<rparr>) = None
   \<and> status (filterResultActivities
        \<lparr>activities = Some [Some (1::nat), None, Some 2], status = Some 0\<rparr>) = Some 6"
  using filter_poisoning
    [of "\<lparr>activities = Some [Some (1::nat), None, Some 2], status = Some 0\<rparr>"
        "[Some 1, None, Some 2]"]
  by simp

text \<open>
  C8 (empty-but-valid parse). Whenever the activities sequence is present and empty (so it
  holds no undefined element either), the filtered result has its activities absent; its
  status is 5 when the status was 0, and the status the implementation had set otherwise.
\<close>

theorem filter_empty_parse:
  assumes "activities result = Some []"
  shows "activities (filterResultActivities result) = None
         \<and> status (filterResultActivities result)
             = (if status result = Some 0 then Some 5 else status result)"
  using assms by (simp add: filterResultActivities_def)

theorem filter_empty_parse_witness:
  "activities (\<lparr>activities = Some [], status = Some 0\<rparr> :: nat parse_result) = Some []
   \<and> activities (filterResultActivities
        (\<lparr>activities = Some [], status = Some 0\<rparr> :: nat parse_result)) = None
   \<and> status (filterResultActivities
        (\<lparr>activities = Some [], status = Some 0\<rparr> :: nat parse_result)) = Some 5
   \<and> activities (\<lparr>activities = Some [], status = Some 3\<rparr> :: nat parse_result) = Some []
   \<and> activities (filterResultActivities
        (\<lparr>activities = Some [], status = Some 3\<rparr> :: nat parse_result)) = None
   \<and> status (filterResultActivities
        (\<lparr>activities = Some [], status = Some 3\<rparr> :: nat parse_result)) = Some 3"
  using filter_empty_parse [of "\<lparr>activities = Some [], status = Some 0\<rparr> :: nat parse_result"]
        filter_empty_parse [of "\<lparr>activities = Some [], status = Some 3\<rparr> :: nat parse_result"]
  by simp

lemma filter_absent_fixed:
  "activities result = None \<Longrightarrow> filterResultActivities result = result"
  by (simp add: filterResultActivities_def)

lemma filter_valid_fixed:
  assumes "activities result = Some acts" and "acts \<noteq> []" and "None \<notin> set acts"
  shows "filterResultActivities result = result"
  using assms by (simp add: filterResultActivities_def filter_undefined_empty)

lemma filter_cases:
  "activities (filterResultActivities result) = None
   \<or> filterResultActivities result = result"
proof (cases "activities result")
  case None
  then show ?thesis by (simp add: filter_absent_fixed)
next
  case (Some acts)
  show ?thesis
  proof (cases "acts = [] \<or> None \<in> set acts")
    case True
    with Some show ?thesis
      by (auto simp: filterResultActivities_def filter_undefined_empty)
  next
    case False
    with Some show ?thesis by (simp add: filter_valid_fixed)
  qed
qed

text \<open>
  C9 (filter idempotence). For every parse result, filtering the filtered result gives
  the filtered result again.
\<close>

theorem filter_idempotent:
  "filterResultActivities (filterResultActivities result) = filterResultActivities result"
proof -
  from filter_cases [of result] show ?thesis
  proof
    assume "activities (filterResultActivities result) = None"
    then show ?thesis by (rule filter_absent_fixed)
  next
    assume "filterResultActivities result = result"
    then show ?thesis by simp
  qed
qed

section \<open>Properties of the implementation selector\<close>

text \<open>Lower-casing the extensions used in the examples below.\<close>

lemma toLowerCase_samples:
  "toLowerCase ''pdf'' = ''pdf''" "toLowerCase ''csv'' = ''csv''"
  "toLowerCase ''txt'' = ''txt''" "toLowerCase ''TXT'' = ''txt''"
  "toLowerCase ''PDF'' = ''pdf''" "toLowerCase ''Csv'' = ''csv''"
  by code_simp+

lemma accepted_iff:
  "(toLowerCase extension \<in> set acceptedFileTypes)
     = (toLowerCase extension = ''pdf'' \<or> toLowerCase extension = ''csv'')"
  by (auto simp: acceptedFileTypes_def)

lemma single_match:
  assumes "impl \<in> set xs" and "P impl" and "length (filter P xs) = 1"
  shows "filter P xs ! 0 = impl"
proof -
  from assms(3) obtain y where y: "filter P xs = [y]"
    by (cases "filter P xs") auto
  from assms(1,2) have "impl \<in> set (filter P xs)" by simp
  with y show ?thesis by simp
qed

lemma single_match_member:
  assumes "length (filter P xs) = 1"
  shows "filter P xs ! 0 \<in> set xs \<and> P (filter P xs ! 0)"
proof -
  from assms obtain y where y: "filter P xs = [y]"
    by (cases "filter P xs") auto
  then have "y \<in> set (filter P xs)" by simp
  then have "y \<in> set xs \<and> P y" by simp
  with y show ?thesis by simp
qed

text \<open>
  C5 (selection totality). For an extension whose lower-case form is \<open>pdf\<close> or \<open>csv\<close>:
  when exactly one entry of the registry accepts the document, \<open>findImplementation\<close>
  returns that implementation; when none does, it throws a document error with status 1;
  when more than one does, it throws a document error with status 2. Whatever it returns
  is an entry of the registry that accepts the document and is the only one that does, so
  no empty and no ambiguous selection is ever returned.
\<close>

theorem findImplementation_selection:
  assumes "toLowerCase extension = ''pdf'' \<or> toLowerCase extension = ''csv''"
  shows "(\<forall>impl. impl \<in> set allImplementations \<and> canParseDocument impl pages extension
            \<and> length (filter (\<lambda>i. canParseDocument i pages extension) allImplementations) = 1
          \<longrightarrow> findImplementation allImplementations pages fileName extension = Inr impl)
       \<and> (length (filter (\<lambda>i. canParseDocument i pages extension) allImplementations) = 0
          \<longrightarrow> (\<exists>message. findImplementation allImplementations pages fileName extension
                  = Inl (ParqetDocumentError message 1)))
       \<and> (1 < length (filter (\<lambda>i. canParseDocument i pages extension) allImplementations)
          \<longrightarrow> (\<exists>message. findImplementation allImplementations pages fileName extension
                  = Inl (ParqetDocumentError message 2)))
       \<and> (\<forall>impl. findImplementation allImplementations pages fileName extension = Inr impl
          \<longrightarrow> impl \<in> set allImplementations \<and> canParseDocument impl pages extension
              \<and> length (filter (\<lambda>i. canParseDocument i pages extension) allImplementations) = 1)"
proof -
  let ?P = "\<lambda>i. canParseDocument i pages extension"
  let ?found = "findImplementation allImplementations pages fileName extension"
  from assms have gate: "toLowerCase extension \<in> set acceptedFileTypes"
    by (simp add: accepted_iff)
  have unfolded: "?found =
      (if filter ?P allImplementations = []
       then Inl (new_ParqetDocumentError
              ''Invalid document. Failed to find parser implementation for document.''
              fileName 1)
       else if 1 < length (filter ?P allImplementations)
       then Inl (new_ParqetDocumentError
              ''Invalid document. Found multiple parser implementations for document.''
              fileName 2)
       else Inr (filter ?P allImplementations ! 0))"
    using gate by (simp add: findImplementation_def Let_def)
  have one: "?found = Inr impl"
    if "impl \<in> set allImplementations" "?P impl" "length (filter ?P allImplementations) = 1"
    for impl
  proof -
    from that(3) have "filter ?P allImplementations \<noteq> []" by auto
    with that(3) single_match [OF that] show ?thesis by (simp add: unfolded)
  qed
  have zero: "\<exists>message. ?found = Inl (ParqetDocumentError message 1)"
    if "length (filter ?P allImplementations) = 0"
    using that by (simp add: unfolded new_ParqetDocumentError_def)
  have many: "\<exists>message. ?found = Inl (ParqetDocumentError message 2)"
    if "1 < length (filter ?P allImplementations)"
  proof -
    from that have "filter ?P allImplementations \<noteq> []" by auto
    with that show ?thesis by (simp add: unfolded new_ParqetDocumentError_def)
  qed
  have sound: "impl \<in> set allImplementations \<and> ?P impl
                \<and> length (filter ?P allImplementations) = 1"
    if r: "?found = Inr impl" for impl
  proof -
    from r have ne: "filter ?P allImplementations \<noteq> []"
      and le: "\<not> 1 < length (filter ?P allImplementations)"
      and sel: "impl = filter ?P allImplementations ! 0"
      by (auto simp: unfolded split: if_splits)
    from ne le have len: "length (filter ?P allImplementations) = 1"
      by (cases "filter ?P allImplementations") auto
    with sel single_match_member [of ?P allImplementations] show ?thesis by simp
  qed
  from one zero many sound show ?thesis by blast
qed

theorem findImplementation_selection_witness:
  "(toLowerCase ''pdf'' = ''pdf'' \<or> toLowerCase ''pdf'' = ''csv'')
   \<and> findImplementation
        [sample_impl True (Inr \<lparr>activities = Some [Some 1], status = Some 0\<rparr>),
         sample_impl False (Inr \<lparr>activities = Some [Some 2], status = Some 0\<rparr>)]
        [[''x'']] ''a.pdf'' ''pdf''
       = Inr (sample_impl True (Inr \<lparr>activities = Some [Some 1], status = Some 0\<rparr>))
   \<and> (\<exists>message. findImplementation
        [sample_impl False (Inr \<lparr>activities = Some [Some 2], status = Some 0\<rparr>)]
        [[''x'']] ''a.pdf'' ''pdf''
       = Inl (ParqetDocumentError message 1))
   \<and> (\<exists>message. findImplementation
        [sample_impl True (Inr \<lparr>activities = Some [Some 1], status = Some 0\<rparr>),
         sample_impl True (Inr \<lparr>activities = Some [Some 2], status = Some 0\<rparr>)]
        [[''x'']] ''a.pdf'' ''pdf''
       = Inl (ParqetDocumentError message 2))"
proof -
  let ?yes = "sample_impl True (Inr \<lparr>activities = Some [Some 1], status = Some 0\<rparr>)"
  let ?no = "sample_impl False (Inr \<lparr>activities = Some [Some 2], status = Some 0\<rparr>)"
  let ?also = "sample_impl True (Inr \<lparr>activities = Some [Some 2], status = Some 0\<rparr>)"
  let ?accepts = "\<lambda>i :: (nat, string) implementation. canParseDocument i [[''x'']] ''pdf''"
  have gate: "toLowerCase ''pdf'' = ''pdf'' \<or> toLowerCase ''pdf'' = ''csv''"
    by (simp add: toLowerCase_samples)
  note sel = findImplementation_selection [OF gate, where pages = "[[''x'']]"
      and fileName = "''a.pdf''"]
  have "?yes \<in> set [?yes, ?no]" by simp
  moreover have "?accepts ?yes" by (simp add: sample_impl_def)
  moreover have "length (filter ?accepts [?yes, ?no]) = 1" by (simp add: sample_impl_def)
  ultimately have one: "findImplementation [?yes, ?no] [[''x'']] ''a.pdf'' ''pdf'' = Inr ?yes"
    using sel [of "[?yes, ?no]", THEN conjunct1, THEN spec, of ?yes]
    by (iprover intro: conjI elim: mp)
  have "length (filter ?accepts [?no]) = 0" by (simp add: sample_impl_def)
  then have zero: "\<exists>message. findImplementation [?no] [[''x'']] ''a.pdf'' ''pdf''
      = Inl (ParqetDocumentError message 1)"
    using sel [of "[?no]", THEN conjunct2, THEN conjunct1] by (rule rev_mp)
  have "1 < length (filter ?accepts [?yes, ?also])" by (simp add: sample_impl_def)
  then have many: "\<exists>message. findImplementation [?yes, ?also] [[''x'']] ''a.pdf'' ''pdf''
      = Inl (ParqetDocumentError message 2)"
    using sel [of "[?yes, ?also]", THEN conjunct2, THEN conjunct2, THEN conjunct1]
    by (rule rev_mp)
  from gate one zero many show ?thesis by (iprover intro: conjI)
qed

text \<open>
  C6 (extension gate). For an extension whose lower-case form is neither \<open>pdf\<close> nor
  \<open>csv\<close>, \<open>findImplementation\<close> throws a document error with status 4. The outcome is
  the same for every registry and every page content: no \<^verbatim>\<open>canParseDocument\<close> has a
  say in it.
\<close>

theorem extension_gate:
  assumes "toLowerCase extension \<noteq> ''pdf''" and "toLowerCase extension \<noteq> ''csv''"
  shows "(\<exists>message. findImplementation allImplementations pages fileName extension
            = Inl (ParqetDocumentError message 4))
         \<and> findImplementation allImplementations pages fileName extension
            = findImplementation allImplementations' pages' fileName extension"
  using assms by (simp add: findImplementation_def accepted_iff new_ParqetDocumentError_def)

theorem extension_gate_witness:
  "toLowerCase ''TXT'' \<noteq> ''pdf'' \<and> toLowerCase ''TXT'' \<noteq> ''csv''
   \<and> (\<exists>message. findImplementation
         [sample_impl True (Inr \<lparr>activities = Some [Some 1], status = Some 0\<rparr>)]
         [[''x'']] ''a.TXT'' ''TXT''
        = Inl (ParqetDocumentError message 4))
   \<and> findImplementation
         [sample_impl True (Inr \<lparr>activities = Some [Some 1], status = Some 0\<rparr>)]
         [[''x'']] ''a.TXT'' ''TXT''
        = findImplementation [] [] ''a.TXT'' ''TXT''"
proof -
  have a: "toLowerCase ''TXT'' \<noteq> ''pdf''" and b: "toLowerCase ''TXT'' \<noteq> ''csv''"
    by (simp_all add: toLowerCase_samples)
  from a b extension_gate [OF a b, of
      "[sample_impl True (Inr \<lparr>activities = Some [Some 1], status = Some 0\<rparr>)]"
      "[[''x'']]" "''a.TXT''" "[]" "[]"]
  show ?thesis by blast
qed

section \<open>Properties of the parse dispatcher\<close>

text \<open>
  C10 (case gap between selector and dispatcher). Let the pages be non-empty and the
  extension be accepted only case-insensitively: its lower-case form is \<open>pdf\<close> or
  \<open>csv\<close>, the extension itself is neither. Then the selector never throws the
  status-4 error of the extension gate. Whenever it returns an implementation,
  \<open>parseActivitiesFromPages\<close> takes neither dispatch branch and returns the empty array
  it started with; the result mentions no \<^verbatim>\<open>parsePages\<close>, and in the example after
  the theorem the selected implementation's \<^verbatim>\<open>parsePages\<close> would throw if it were
  called. Whenever the selector throws instead, which it does with status 1 or 2,
  \<open>parseActivitiesFromPages\<close> throws the same error and returns nothing.
\<close>

theorem dispatch_case_gap:
  assumes "pages \<noteq> []"
    and "toLowerCase extension = ''pdf'' \<or> toLowerCase extension = ''csv''"
    and "extension \<noteq> ''pdf''" and "extension \<noteq> ''csv''"
  shows "(\<forall>message. findImplementation allImplementations pages fileName extension
            \<noteq> Inl (ParqetDocumentError message 4))
         \<and> (\<forall>impl. findImplementation allImplementations pages fileName extension = Inr impl
              \<longrightarrow> parseActivitiesFromPages allImplementations csvLinesToJSON JSON_parse
                    pages fileName extension = Inr (ActivityArray []))
         \<and> (\<forall>error. findImplementation allImplementations pages fileName extension = Inl error
              \<longrightarrow> parseActivitiesFromPages allImplementations csvLinesToJSON JSON_parse
                    pages fileName extension = Inl error
                  \<and> (\<exists>message. error = ParqetDocumentError message 1
                        \<or> error = ParqetDocumentError message 2))"
proof -
  from assms(2) have acc: "toLowerCase extension \<in> set acceptedFileTypes"
    by (simp add: accepted_iff)
  then have gate: "findImplementation allImplementations pages fileName extension
                     \<noteq> Inl (ParqetDocumentError message 4)" for message
    by (simp add: findImplementation_def Let_def new_ParqetDocumentError_def)
  have empty: "parseActivitiesFromPages allImplementations csvLinesToJSON JSON_parse
                 pages fileName extension = Inr (ActivityArray [])"
    if "findImplementation allImplementations pages fileName extension = Inr impl" for impl
    using that assms(1,3,4) by (cases pages) (simp_all add: parseActivitiesFromPages_def)
  have thrown: "parseActivitiesFromPages allImplementations csvLinesToJSON JSON_parse
                  pages fileName extension = Inl error
                \<and> (\<exists>message. error = ParqetDocumentError message 1
                      \<or> error = ParqetDocumentError message 2)"
    if r: "findImplementation allImplementations pages fileName extension = Inl error"
    for error
  proof
    from r assms(1) show "parseActivitiesFromPages allImplementations csvLinesToJSON
        JSON_parse pages fileName extension = Inl error"
      by (cases pages) (simp_all add: parseActivitiesFromPages_def)
    from r acc show "\<exists>message. error = ParqetDocumentError message 1
        \<or> error = ParqetDocumentError message 2"
      by (auto simp: findImplementation_def Let_def new_ParqetDocumentError_def
          split: if_splits)
  qed
  from gate empty thrown show ?thesis by blast
qed

theorem dispatch_case_gap_witness:
  "[[''x'']] \<noteq> ([] :: page list)
   \<and> (toLowerCase ''PDF'' = ''pdf'' \<or> toLowerCase ''PDF'' = ''csv'')
   \<and> ''PDF'' \<noteq> ''pdf'' \<and> ''PDF'' \<noteq> ''csv''
   \<and> findImplementation [sample_impl True (Inl (OtherError ''parsePages called''))]
         [[''x'']] ''a.PDF'' ''PDF''
        = Inr (sample_impl True (Inl (OtherError ''parsePages called'')))
   \<and> parseActivitiesFromPages [sample_impl True (Inl (OtherError ''parsePages called''))]
         sample_csvLinesToJSON sample_JSON_parse [[''x'']] ''a.PDF'' ''PDF''
        = Inr (ActivityArray [])
   \<and> (toLowerCase ''Csv'' = ''pdf'' \<or> toLowerCase ''Csv'' = ''csv'')
   \<and> ''Csv'' \<noteq> ''pdf'' \<and> ''Csv'' \<noteq> ''csv''
   \<and> findImplementation
         [sample_impl True (Inl (OtherError ''parsePages called'')),
          sample_impl True (Inl (OtherError ''parsePages called''))]
         [[''x'']] ''a.Csv'' ''Csv''
        = Inl (new_ParqetDocumentError
                 ''Invalid document. Found multiple parser implementations for document.''
                 ''a.Csv'' 2)
   \<and> parseActivitiesFromPages
         [sample_impl True (Inl (OtherError ''parsePages called'')),
          sample_impl True (Inl (OtherError ''parsePages called''))]
         sample_csvLinesToJSON sample_JSON_parse [[''x'']] ''a.Csv'' ''Csv''
        = Inl (new_ParqetDocumentError
                 ''Invalid document. Found multiple parser implementations for document.''
                 ''a.Csv'' 2)"
proof -
  let ?thrower = "sample_impl True (Inl (OtherError ''parsePages called''))"
  let ?ambiguous = "new_ParqetDocumentError
      ''Invalid document. Found multiple parser implementations for document.'' ''a.Csv'' 2"
  have p: "[[''x'']] \<noteq> ([] :: page list)" by simp
  have g: "toLowerCase ''PDF'' = ''pdf'' \<or> toLowerCase ''PDF'' = ''csv''"
    by (simp add: toLowerCase_samples)
  have n1: "''PDF'' \<noteq> ''pdf''" and n2: "''PDF'' \<noteq> ''csv''" by simp_all
  have f: "findImplementation [?thrower] [[''x'']] ''a.PDF'' ''PDF'' = Inr ?thrower"
    by (simp add: findImplementation_def toLowerCase_samples acceptedFileTypes_def
        sample_impl_def)
  then have e: "parseActivitiesFromPages [?thrower] sample_csvLinesToJSON sample_JSON_parse
      [[''x'']] ''a.PDF'' ''PDF'' = Inr (ActivityArray [])"
    using dispatch_case_gap [OF p g n1 n2, of "[?thrower]" "''a.PDF''"
        sample_csvLinesToJSON sample_JSON_parse, THEN conjunct2, THEN conjunct1,
        THEN spec, of ?thrower]
    by (rule rev_mp)
  have g': "toLowerCase ''Csv'' = ''pdf'' \<or> toLowerCase ''Csv'' = ''csv''"
    by (simp add: toLowerCase_samples)
  have m1: "''Csv'' \<noteq> ''pdf''" and m2: "''Csv'' \<noteq> ''csv''" by simp_all
  have f': "findImplementation [?thrower, ?thrower] [[''x'']] ''a.Csv'' ''Csv''
      = Inl ?ambiguous"
    by (simp add: findImplementation_def toLowerCase_samples acceptedFileTypes_def
        sample_impl_def)
  then have "parseActivitiesFromPages [?thrower, ?thrower] sample_csvLinesToJSON
      sample_JSON_parse [[''x'']] ''a.Csv'' ''Csv'' = Inl ?ambiguous
      \<and> (\<exists>message. ?ambiguous = ParqetDocumentError message 1
            \<or> ?ambiguous = ParqetDocumentError message 2)"
    using dispatch_case_gap [OF p g' m1 m2, of "[?thrower, ?thrower]" "''a.Csv''"
        sample_csvLinesToJSON sample_JSON_parse, THEN conjunct2, THEN conjunct2,
        THEN spec, of ?ambiguous]
    by (rule rev_mp)
  then have e': "parseActivitiesFromPages [?thrower, ?thrower] sample_csvLinesToJSON
      sample_JSON_parse [[''x'']] ''a.Csv'' ''Csv'' = Inl ?ambiguous"
    by (rule conjunct1)
  from p g n1 n2 f e g' m1 m2 f' e' show ?thesis by (iprover intro: conjI)
qed

text \<open>
  Without the condition on the selector the statement fails. With an empty registry, one
  page and the extension \<open>PDF\<close>, all that was asked of the input holds, and
  \<open>parseActivitiesFromPages\<close> throws the document error with status 1 instead of
  returning the empty array.
\<close>

theorem dispatch_case_gap_counterexample:
  "[[''x'']] \<noteq> ([] :: page list)
   \<and> toLowerCase ''PDF'' = ''pdf''
   \<and> ''PDF'' \<noteq> ''pdf'' \<and> ''PDF'' \<noteq> ''csv''
   \<and> parseActivitiesFromPages ([] :: (nat, string) implementation list)
         sample_csvLinesToJSON sample_JSON_parse [[''x'']] ''a.PDF'' ''PDF''
        = Inl (new_ParqetDocumentError
                 ''Invalid document. Failed to find parser implementation for document.''
                 ''a.PDF'' 1)
   \<and> parseActivitiesFromPages ([] :: (nat, string) implementation list)
         sample_csvLinesToJSON sample_JSON_parse [[''x'']] ''a.PDF'' ''PDF''
        \<noteq> Inr (ActivityArray [])"
  by (simp add: parseActivitiesFromPages_def findImplementation_def toLowerCase_samples
      acceptedFileTypes_def)

section \<open>Properties of the top-level export\<close>

text \<open>
  Three facts about every run. An outcome the export resolves carries status 0 and
  \<open>successful = false\<close>; the returned promise is never rejected; and once
  \<^verbatim>\<open>parseFile\<close> has delivered a parsed file on which \<open>parseActivitiesFromPages\<close>
  throws, the returned promise stays pending.
\<close>

lemma truthy_length_of_dispatched:
  assumes "parseActivitiesFromPages allImplementations csvLinesToJSON JSON_parse
             pages fileName extension = Inr acts"
  shows "\<not> truthy (length_of acts)"
  using assms
  by (auto simp: parseActivitiesFromPages_def truthy_def length_of_def
      split: list.splits sum.splits if_splits)

lemma process_resolved_shape:
  assumes "process allImplementations csvLinesToJSON JSON_parse isBrowser isNode name reader
             = Resolved out"
  shows "status_out out = 0 \<and> \<not> successful_out out"
  using assms
  by (auto simp: process_def try_catch_def then_do_def on_parsed_def resolve_def
      split: promise.splits sum.splits dest: truthy_length_of_dispatched)

lemma process_never_rejected:
  "process allImplementations csvLinesToJSON JSON_parse isBrowser isNode name reader
     \<noteq> Rejected error"
  by (auto simp: process_def try_catch_def then_do_def on_parsed_def resolve_def
      split: promise.splits sum.splits)

lemma process_throw_pending:
  assumes "parseFile isBrowser isNode name reader = Resolved parsedFile"
    and "parseActivitiesFromPages allImplementations csvLinesToJSON JSON_parse
           (pages_of parsedFile) name (extension_of parsedFile) = Inl error"
  shows "process allImplementations csvLinesToJSON JSON_parse isBrowser isNode name reader
           = Pending"
  using assms by (simp add: process_def try_catch_def then_do_def on_parsed_def)

text \<open>Unfolding the pipeline on a concrete run.\<close>

lemmas run_simps = process_def try_catch_def then_do_def parseFile_def on_parsed_def
  parseActivitiesFromPages_def findImplementation_def toLowerCase_samples
  acceptedFileTypes_def new_ParqetDocumentError_def sample_impl_def
  filterResultActivities_def resolve_def length_of_def truthy_def

text \<open>
  C1 (every failure path resolves a status-coded outcome). The property asked for: on an
  unsupported extension, a missing or ambiguous implementation, an empty document or a
  parser error, the returned promise is resolved with \<open>successful = false\<close> and the
  status of the error. The run below is the file \<open>statement.txt\<close> read in a
  browser, with one page of content and a registry of one implementation that accepts
  it: \<open>findImplementation\<close> throws the document error with status 4 inside the
  \<^verbatim>\<open>then\<close> callback, outside the reach of the \<^verbatim>\<open>try\<close> block, and the returned promise
  is never settled.
\<close>

theorem process_failure_left_pending:
  "process [sample_impl True (Inr \<lparr>activities = Some [Some 1], status = Some 0\<rparr>)]
     sample_csvLinesToJSON sample_JSON_parse True False ''statement.txt'' (Extracted [[''x'']])
     = Pending"
  by (simp add: run_simps)

text \<open>
  The other failure paths end the same way: the empty document, no implementation, two
  implementations, and a parser error thrown by \<^verbatim>\<open>parsePages\<close>.
\<close>

lemma process_empty_document_pending:
  "process [sample_impl True (Inr \<lparr>activities = Some [Some 1], status = Some 0\<rparr>)]
     sample_csvLinesToJSON sample_JSON_parse True False ''statement.pdf'' (Extracted [])
     = Pending"
  by (simp add: run_simps)

lemma process_no_implementation_pending:
  "process [sample_impl False (Inr \<lparr>activities = Some [Some 1], status = Some 0\<rparr>)]
     sample_csvLinesToJSON sample_JSON_parse True False ''statement.pdf'' (Extracted [[''x'']])
     = Pending"
  by (simp add: run_simps)

lemma process_ambiguous_pending:
  "process [sample_impl True (Inr \<lparr>activities = Some [Some 1], status = Some 0\<rparr>),
            sample_impl True (Inr \<lparr>activities = Some [Some 2], status = Some 0\<rparr>)]
     sample_csvLinesToJSON sample_JSON_parse True False ''statement.csv'' (Extracted [[''x'']])
     = Pending"
  by (simp add: run_simps)

lemma process_parser_error_pending:
  "process [sample_impl True (Inl (ParqetParserError ''Input: x'' 3))]
     sample_csvLinesToJSON sample_JSON_parse True False ''statement.pdf'' (Extracted [[''x'']])
     = Pending"
  by (simp add: run_simps)

text \<open>
  C2 (successful parse). The property asked for: a file with an accepted extension,
  matched by exactly one implementation, whose parse yields a non-empty sequence of valid
  activities, resolves to status 0, \<open>successful = true\<close> and the parsed sequence as
  activities. The run below is such a file, \<open>statement.csv\<close> with three valid
  activities: the outcome has status 0, but its activities field holds the whole filtered
  object \<^verbatim>\<open>{ activities, status }\<close>, whose \<^verbatim>\<open>length\<close> is undefined, so
  \<open>successful\<close> is false.
\<close>

theorem process_valid_parse_unsuccessful:
  "process [sample_impl True
              (Inr \<lparr>activities = Some [Some 1, Some 2, Some 3], status = Some 0\<rparr>)]
     sample_csvLinesToJSON sample_JSON_parse True False ''statement.csv'' (Extracted [[''x'']])
   = Resolved \<lparr>file_out = ''statement.csv'',
        activities_out =
          FilteredResult \<lparr>activities = Some [Some 1, Some 2, Some 3], status = Some 0\<rparr>,
        status_out = 0, successful_out = False\<rparr>"
  by (simp add: run_simps sample_csvLinesToJSON_def sample_JSON_parse_def)

text \<open>
  C3 (poisoned parse, end to end). The property asked for: a file matched by exactly one
  implementation whose parse holds an undefined element resolves to status 6,
  \<open>successful = false\<close> and no activities. The run below is such a file with the parse
  \<^verbatim>\<open>[1, undefined, 2]\<close>: the filter sets status 6 on the parse result, but the outcome
  is resolved with the constant status 0 and carries the filtered object as activities.
\<close>

theorem process_poisoned_parse_status_zero:
  "process [sample_impl True
              (Inr \<lparr>activities = Some [Some 1, None, Some 2], status = Some 0\<rparr>)]
     sample_csvLinesToJSON sample_JSON_parse True False ''statement.pdf'' (Extracted [[''x'']])
   = Resolved \<lparr>file_out = ''statement.pdf'',
        activities_out = FilteredResult \<lparr>activities = None, status = Some 6\<rparr>,
        status_out = 0, successful_out = False\<rparr>"
  by (simp add: run_simps)

text \<open>
  C4 (status invariant of the outcome). The property asked for: a non-zero status implies
  absent activities, and the status is 0 only when no failure condition was triggered.
  The run below triggers the failure condition "zero activities" (status 5 of the
  taxonomy): the filter records status 5 in the parse result, and the outcome is resolved
  with status 0 all the same.
\<close>

theorem process_empty_parse_status_zero:
  "process [sample_impl True (Inr \<lparr>activities = Some [], status = Some 0\<rparr>)]
     sample_csvLinesToJSON sample_JSON_parse True False ''statement.pdf'' (Extracted [[''x'']])
   = Resolved \<lparr>file_out = ''statement.pdf'',
        activities_out = FilteredResult \<lparr>activities = None, status = Some 5\<rparr>,
        status_out = 0, successful_out = False\<rparr>"
  by (simp add: run_simps)

end
